theory Spec2Isabelle
  imports Complex_Main "HOL-Library.Word"
begin

section \<open>Numbers of the program\<close>

text \<open>
  A JavaScript number is modelled as an exact real, the two infinities, or NaN.
  Rounding of IEEE doubles and the sign of zero are not modelled. The operations
  below are the ones \<^verbatim>\<open>App.tsx\<close> applies to volumes and thresholds:
  \<^verbatim>\<open>+\<close>, \<^verbatim>\<open>*\<close>, \<^verbatim>\<open>/\<close>, \<^verbatim>\<open><\<close> and \<^verbatim>\<open>>\<close>.
\<close>

datatype jsnum = Finite real | PosInfinity | NegInfinity | NaN

fun js_add :: "jsnum \<Rightarrow> jsnum \<Rightarrow> jsnum" where
  "js_add (Finite a) (Finite b) = Finite (a + b)"
| "js_add NaN _ = NaN"
| "js_add _ NaN = NaN"
| "js_add PosInfinity NegInfinity = NaN"
| "js_add NegInfinity PosInfinity = NaN"
| "js_add PosInfinity _ = PosInfinity"
| "js_add _ PosInfinity = PosInfinity"
| "js_add NegInfinity _ = NegInfinity"
| "js_add _ NegInfinity = NegInfinity"

fun js_sign :: "jsnum \<Rightarrow> real" where
  "js_sign (Finite a) = sgn a"
| "js_sign PosInfinity = 1"
| "js_sign NegInfinity = - 1"
| "js_sign NaN = 0"

fun js_mult :: "jsnum \<Rightarrow> jsnum \<Rightarrow> jsnum" where
  "js_mult (Finite a) (Finite b) = Finite (a * b)"
| "js_mult NaN _ = NaN"
| "js_mult _ NaN = NaN"
| "js_mult x y =
     (if js_sign x * js_sign y > 0 then PosInfinity
      else if js_sign x * js_sign y < 0 then NegInfinity
      else NaN)"

fun js_div :: "jsnum \<Rightarrow> jsnum \<Rightarrow> jsnum" where
  "js_div (Finite a) (Finite b) =
     (if b \<noteq> 0 then Finite (a / b)
      else if a > 0 then PosInfinity
      else if a < 0 then NegInfinity
      else NaN)"
| "js_div NaN _ = NaN"
| "js_div _ NaN = NaN"
| "js_div (Finite a) _ = Finite 0"
| "js_div PosInfinity (Finite b) = (if b \<ge> 0 then PosInfinity else NegInfinity)"
| "js_div NegInfinity (Finite b) = (if b \<ge> 0 then NegInfinity else PosInfinity)"
| "js_div _ _ = NaN"

fun js_less :: "jsnum \<Rightarrow> jsnum \<Rightarrow> bool" where
  "js_less (Finite a) (Finite b) = (a < b)"
| "js_less NaN _ = False"
| "js_less _ NaN = False"
| "js_less PosInfinity _ = False"
| "js_less _ NegInfinity = False"
| "js_less _ _ = True"

definition js_greater :: "jsnum \<Rightarrow> jsnum \<Rightarrow> bool" where
  "js_greater x y = js_less y x"

section \<open>Constants (\<^verbatim>\<open>constants.ts\<close>)\<close>

definition CALIBRATION_TIME_MS :: int where
  "CALIBRATION_TIME_MS = 3000"

definition BASE_SILENCE_DETECTION_TIME_MS :: int where
  "BASE_SILENCE_DETECTION_TIME_MS = 400"

definition PAUSE_TIGHTNESS_STEP_MS :: int where
  "PAUSE_TIGHTNESS_STEP_MS = 50"

definition SILENCE_MULTIPLIER :: jsnum where
  "SILENCE_MULTIPLIER = Finite 2.0"

definition SOUND_MULTIPLIER :: jsnum where
  "SOUND_MULTIPLIER = Finite 2.5"

section \<open>Level meter and hysteresis gate\<close>

text \<open>
  \<^verbatim>\<open>dataArray.reduce((acc, val) => acc + val, 0) / dataArray.length\<close> over a
  \<^verbatim>\<open>Uint8Array\<close>: the bins are bytes, the sum and the quotient are numbers.
\<close>

definition averageVolume :: "8 word list \<Rightarrow> jsnum" where
  "averageVolume dataArray =
     js_div (foldl (\<lambda>acc val. js_add acc (Finite (real (unat val)))) (Finite 0) dataArray)
            (Finite (real (length dataArray)))"

text \<open>The two comparisons of \<^verbatim>\<open>runAudioAnalysis\<close> against the calibrated threshold.\<close>

definition isSilent :: "jsnum \<Rightarrow> jsnum \<Rightarrow> bool" where
  "isSilent volume silenceThreshold =
     js_less volume (js_mult silenceThreshold SILENCE_MULTIPLIER)"

definition isLoudEnoughToResume :: "jsnum \<Rightarrow> jsnum \<Rightarrow> bool" where
  "isLoudEnoughToResume volume silenceThreshold =
     js_greater volume (js_mult silenceThreshold SOUND_MULTIPLIER)"

section \<open>Calibrator and pause tightness\<close>

text \<open>
  The completion callback of the calibration window (\<^verbatim>\<open>startCalibration\<close>, the
  \<^verbatim>\<open>setTimeout\<close> body): the mean of the collected samples, replaced by 1 when it is
  not greater than 0 or when nothing was collected.
\<close>

definition calibrationAverage :: "jsnum list \<Rightarrow> jsnum" where
  "calibrationAverage calibrationData =
     js_div (foldl js_add (Finite 0) calibrationData)
            (Finite (real (length calibrationData)))"

definition calibrationBaseline :: "jsnum list \<Rightarrow> jsnum" where
  "calibrationBaseline calibrationData =
     (if length calibrationData > 0
      then (let average = calibrationAverage calibrationData
            in if js_greater average (Finite 0) then average else Finite 1)
      else Finite 1)"

text \<open>
  \<^verbatim>\<open>BASE_SILENCE_DETECTION_TIME_MS - (pauseTightness * PAUSE_TIGHTNESS_STEP_MS)\<close> and
  \<^verbatim>\<open>Math.max(-5, Math.min(5, prev + delta))\<close>. The tightness starts at 0 and the two
  buttons pass \<open>delta = \<plusminus>1\<close>, so it is an integer.
\<close>

definition silenceDetectionTime :: "int \<Rightarrow> int" where
  "silenceDetectionTime pauseTightness =
     BASE_SILENCE_DETECTION_TIME_MS - (pauseTightness * PAUSE_TIGHTNESS_STEP_MS)"

definition clampTightness :: "int \<Rightarrow> int \<Rightarrow> int" where
  "clampTightness prev delta = max (- 5) (min 5 (prev + delta))"

section \<open>The recording session\<close>

text \<open>
  Modelled from the spec: the enum \<^verbatim>\<open>RecordingState\<close> of \<^verbatim>\<open>types.ts\<close>, which is not
  among the sources. Its five members are the lifecycle states of the spec (Idle,
  Calibrating, Recording, Paused, Stopped) under the names \<^verbatim>\<open>App.tsx\<close> and
  \<^verbatim>\<open>StatusIndicator.tsx\<close> use.
\<close>

datatype RecordingState = IDLE | CALIBRATING | RECORDING | PAUSED | STOPPED

text \<open>The \<^verbatim>\<open>state\<close> attribute of the browser's \<^verbatim>\<open>MediaRecorder\<close>.\<close>

datatype recorder_state = inactive | recording | paused

text \<open>
  \<^verbatim>\<open>runAudioAnalysis\<close> is a \<^verbatim>\<open>useCallback\<close> over
  \<^verbatim>\<open>[recordingState, isManuallyPaused, pauseTightness]\<close>. The function object that
  runs reads the values of these three that were current in the render that created it,
  and it re-schedules itself: inside its body the name \<^verbatim>\<open>runAudioAnalysis\<close> is the
  binding of that same render. A \<open>closure\<close> holds the three captured values.
\<close>

record closure =
  cl_recordingState :: RecordingState
  cl_isManuallyPaused :: bool
  cl_pauseTightness :: int

text \<open>
  A handle returned by \<^verbatim>\<open>setTimeout\<close>, with the browser's entry for it: the time (ms)
  from which it may fire, and whether it is still pending (not yet fired and not cleared).
\<close>

record timer =
  due :: nat
  live :: bool

text \<open>
  The locals of one \<^verbatim>\<open>startCalibration\<close> call that its timers share: the sample
  array, the next due times of \<^verbatim>\<open>countdownInterval\<close>, \<^verbatim>\<open>collectionInterval\<close> and of
  the completion timeout, and the \<^verbatim>\<open>runAudioAnalysis\<close> closure that
  \<^verbatim>\<open>startActualRecording\<close> will call. The three timers are created together and
  cleared together (by the completion callback only).
\<close>

record calibration_run =
  calibrationData :: "jsnum list"
  countdownDue :: nat
  collectionDue :: nat
  calibrationDue :: nat
  captured :: closure

text \<open>
  The state of \<^verbatim>\<open>App\<close> that the controller reads or writes: React state
  (\<open>recordingState\<close> to \<open>error\<close>), refs, the pending animation-frame request (the
  closure it will run), the running calibration, and the clock in ms. The teleprompter,
  the device list and the preview's presentation state are left out.
\<close>

record app =
  recordingState :: RecordingState
  isManuallyPaused :: bool
  pauseTightness :: int
  calibrationCountdown :: int
  error :: "string option"
  streamRef :: bool
  mediaRecorderRef :: "recorder_state option"
  audioContextRef :: bool
  analyserRef :: bool
  silenceTimerRef :: "timer option"
  silenceThresholdRef :: jsnum
  animationFrame :: "closure option"
  calibrationRun :: "calibration_run option"
  now :: nat

definition initial :: app where
  "initial =
     \<lparr>recordingState = IDLE, isManuallyPaused = False, pauseTightness = 0,
      calibrationCountdown = CALIBRATION_TIME_MS, error = None, streamRef = False,
      mediaRecorderRef = None, audioContextRef = False, analyserRef = False,
      silenceTimerRef = None, silenceThresholdRef = Finite 0, animationFrame = None,
      calibrationRun = None, now = 0\<rparr>"

text \<open>
  \<^verbatim>\<open>stopPreviewStream\<close> and \<^verbatim>\<open>cleanupRecording\<close>. An audio context is closed
  only here, where its ref is also reset, so the ref never holds a closed context.
\<close>

definition stopPreviewStream :: "app \<Rightarrow> app" where
  "stopPreviewStream s = (if streamRef s then s\<lparr>streamRef := False\<rparr> else s)"

definition cleanupRecording :: "app \<Rightarrow> app" where
  "cleanupRecording s =
     s\<lparr>animationFrame := None, audioContextRef := False, mediaRecorderRef := None\<rparr>"

text \<open>
  \<^verbatim>\<open>stopRecording\<close>. \<^verbatim>\<open>clearTimeout\<close> ends the timer but the ref keeps the handle.
\<close>

definition stopRecording :: "app \<Rightarrow> app" where
  "stopRecording s =
     (let s1 = (if mediaRecorderRef s \<noteq> None \<and> recordingState s \<noteq> IDLE
                   \<and> recordingState s \<noteq> STOPPED
                then s\<lparr>mediaRecorderRef := Some inactive, recordingState := STOPPED\<rparr>
                else s);
          s2 = (case silenceTimerRef s1 of
                  Some t \<Rightarrow> s1\<lparr>silenceTimerRef := Some (t\<lparr>live := False\<rparr>)\<rparr>
                | None \<Rightarrow> s1)
      in s2\<lparr>animationFrame := None, isManuallyPaused := False\<rparr>)"

text \<open>The \<^verbatim>\<open>onstop\<close> handler installed by \<^verbatim>\<open>startActualRecording\<close>.\<close>

definition recorderOnstop :: "app \<Rightarrow> app" where
  "recorderOnstop s = stopPreviewStream (cleanupRecording s)"

text \<open>The callback given to \<^verbatim>\<open>setTimeout\<close> inside \<^verbatim>\<open>runAudioAnalysis\<close>.\<close>

definition silenceTimerCallback :: "app \<Rightarrow> app" where
  "silenceTimerCallback s =
     (if mediaRecorderRef s = Some recording
      then s\<lparr>isManuallyPaused := False, mediaRecorderRef := Some paused,
             recordingState := PAUSED\<rparr>
      else s)"

text \<open>
  One run of \<^verbatim>\<open>runAudioAnalysis\<close>: \<open>cl\<close> is the closure that runs and \<open>dataArray\<close>
  what \<^verbatim>\<open>getByteFrequencyData\<close> wrote. A timer handle is a positive number, so the
  test \<^verbatim>\<open>!silenceTimerRef.current\<close> asks whether the ref is null. Clearing the timer and
  resetting the ref drops the handle together with its entry. The run ends by requesting
  the next frame for the same closure.
\<close>

definition runAudioAnalysis :: "closure \<Rightarrow> 8 word list \<Rightarrow> app \<Rightarrow> app" where
  "runAudioAnalysis cl dataArray s =
     (if \<not> analyserRef s \<or> cl_recordingState cl = CALIBRATING
      then s\<lparr>animationFrame := Some cl\<rparr>
      else
        let volume = averageVolume dataArray;
            silent = isSilent volume (silenceThresholdRef s);
            loud = isLoudEnoughToResume volume (silenceThresholdRef s);
            delay = silenceDetectionTime (cl_pauseTightness cl);
            s1 = (case mediaRecorderRef s of
                    None \<Rightarrow> s
                  | Some st \<Rightarrow>
                      if st = recording \<and> silent then
                        (if silenceTimerRef s = None
                         then s\<lparr>silenceTimerRef :=
                                  Some \<lparr>due = now s + nat delay, live = True\<rparr>\<rparr>
                         else s)
                      else if st = recording \<and> \<not> silent then
                        (if silenceTimerRef s \<noteq> None
                         then s\<lparr>silenceTimerRef := None\<rparr>
                         else s)
                      else if st = paused \<and> loud \<and> \<not> cl_isManuallyPaused cl then
                        s\<lparr>mediaRecorderRef := Some recording, recordingState := RECORDING\<rparr>
                      else s)
        in s1\<lparr>animationFrame := Some cl\<rparr>)"

text \<open>
  \<^verbatim>\<open>startActualRecording\<close>; it calls \<^verbatim>\<open>runAudioAnalysis()\<close> once itself, which
  starts the frame loop. The \<^verbatim>\<open>MediaRecorder\<close> constructor is taken to succeed.
\<close>

definition startActualRecording :: "closure \<Rightarrow> 8 word list \<Rightarrow> app \<Rightarrow> app" where
  "startActualRecording cl dataArray s =
     (if \<not> streamRef s then s
      else runAudioAnalysis cl dataArray
             (s\<lparr>recordingState := RECORDING, mediaRecorderRef := Some recording\<rparr>))"

text \<open>
  \<^verbatim>\<open>startCalibration\<close>. It is memoised over \<^verbatim>\<open>startActualRecording\<close>, which is
  memoised over \<^verbatim>\<open>runAudioAnalysis\<close>, which is memoised over the three state values:
  the function the Start button calls reaches the \<^verbatim>\<open>runAudioAnalysis\<close> of the last
  render in which one of the three changed, so the closure it starts 3 seconds later
  holds their values at the click. The function has no \<^verbatim>\<open>await\<close>: it runs to its
  end within the click. \<open>thrown\<close> says whether one of the Web Audio calls throws, which
  the \<^verbatim>\<open>catch\<close> block handles, and where: before \<^verbatim>\<open>analyserRef.current\<close> is
  assigned (the context constructor, \<^verbatim>\<open>createMediaStreamSource\<close>,
  \<^verbatim>\<open>createAnalyser\<close>) or after it (setting \<^verbatim>\<open>fftSize\<close>, \<^verbatim>\<open>connect\<close>). In both
  cases \<^verbatim>\<open>cleanupRecording\<close> resets the context ref; the analyser ref keeps what it
  was assigned.
\<close>

datatype throw_point = BeforeAnalyser | AfterAnalyser

definition startCalibration :: "throw_point option \<Rightarrow> app \<Rightarrow> app" where
  "startCalibration thrown s =
     (let cl = \<lparr>cl_recordingState = recordingState s,
                cl_isManuallyPaused = isManuallyPaused s,
                cl_pauseTightness = pauseTightness s\<rparr>;
          s1 = s\<lparr>recordingState := CALIBRATING, error := None, isManuallyPaused := False\<rparr>
      in if \<not> streamRef s1 then
           s1\<lparr>error := Some ''Camera stream is not available. Please check permissions and camera selection.'',
              recordingState := IDLE\<rparr>
         else if thrown = Some BeforeAnalyser then
           cleanupRecording
             (s1\<lparr>error := Some ''Could not start recording process. Please try again.'',
                 recordingState := IDLE\<rparr>)
         else if thrown = Some AfterAnalyser then
           cleanupRecording
             (s1\<lparr>analyserRef := True,
                 error := Some ''Could not start recording process. Please try again.'',
                 recordingState := IDLE\<rparr>)
         else
           s1\<lparr>audioContextRef := True, analyserRef := True,
              calibrationCountdown := CALIBRATION_TIME_MS,
              calibrationRun :=
                Some \<lparr>calibrationData = [], countdownDue = now s + 100,
                      collectionDue = now s + 50,
                      calibrationDue = now s + nat CALIBRATION_TIME_MS,
                      captured = cl\<rparr>\<rparr>)"

text \<open>The three timer callbacks of a calibration.\<close>

definition countdownTick :: "calibration_run \<Rightarrow> app \<Rightarrow> app" where
  "countdownTick c s =
     s\<lparr>calibrationCountdown := calibrationCountdown s - 100,
       calibrationRun := Some (c\<lparr>countdownDue := now s + 100\<rparr>)\<rparr>"

definition collectCalibrationData :: "calibration_run \<Rightarrow> bool \<Rightarrow> 8 word list \<Rightarrow> app \<Rightarrow> app" where
  "collectCalibrationData c running dataArray s =
     (let c1 = (if audioContextRef s \<and> analyserRef s \<and> running
                then c\<lparr>calibrationData := calibrationData c @ [averageVolume dataArray]\<rparr>
                else c)
      in s\<lparr>calibrationRun := Some (c1\<lparr>collectionDue := now s + 50\<rparr>)\<rparr>)"

definition calibrationDone :: "calibration_run \<Rightarrow> 8 word list \<Rightarrow> app \<Rightarrow> app" where
  "calibrationDone c dataArray s =
     startActualRecording (captured c) dataArray
       (s\<lparr>calibrationRun := None,
          silenceThresholdRef := calibrationBaseline (calibrationData c)\<rparr>)"

text \<open>The remaining handlers.\<close>

definition handleReset :: "app \<Rightarrow> app" where
  "handleReset s =
     cleanupRecording (s\<lparr>recordingState := IDLE, error := None, isManuallyPaused := False\<rparr>)"

definition handleManualPause :: "app \<Rightarrow> app" where
  "handleManualPause s =
     (if mediaRecorderRef s = Some recording
      then s\<lparr>mediaRecorderRef := Some paused, recordingState := PAUSED,
             isManuallyPaused := True\<rparr>
      else s)"

definition handleResume :: "app \<Rightarrow> app" where
  "handleResume s =
     (if mediaRecorderRef s = Some paused
      then s\<lparr>isManuallyPaused := False, mediaRecorderRef := Some recording,
             recordingState := RECORDING\<rparr>
      else s)"

definition handleTightnessChange :: "int \<Rightarrow> app \<Rightarrow> app" where
  "handleTightnessChange delta s =
     s\<lparr>pauseTightness := clampTightness (pauseTightness s) delta\<rparr>"

subsection \<open>Events\<close>

text \<open>
  The buttons \<^verbatim>\<open>renderControls\<close> and the settings panel draw. A button acts only in
  the recording states that render it; while calibrating the only control is a disabled
  button, and each tightness button is disabled at its bound.
\<close>

datatype button =
  StartRecording | PauseButton | StopButton | ResumeButton | RecordAgain
  | TightnessMinus | TightnessPlus

definition click :: "button \<Rightarrow> throw_point option \<Rightarrow> app \<Rightarrow> app" where
  "click b thrown s =
     (case b of
        StartRecording \<Rightarrow>
          if recordingState s = IDLE then startCalibration thrown s else s
      | PauseButton \<Rightarrow>
          if recordingState s = RECORDING then handleManualPause s else s
      | StopButton \<Rightarrow>
          if recordingState s = RECORDING \<or> recordingState s = PAUSED
          then stopRecording s else s
      | ResumeButton \<Rightarrow>
          if recordingState s = PAUSED then handleResume s else s
      | RecordAgain \<Rightarrow>
          if recordingState s = STOPPED then handleReset s else s
      | TightnessMinus \<Rightarrow>
          if recordingState s = IDLE \<and> pauseTightness s \<noteq> - 5
          then handleTightnessChange (- 1) s else s
      | TightnessPlus \<Rightarrow>
          if recordingState s = IDLE \<and> pauseTightness s \<noteq> 5
          then handleTightnessChange 1 s else s)"

text \<open>
  What the browser's event loop can run, one callback at a time; between callbacks time
  passes (\<open>Elapse\<close>). A timer callback runs only when its timer is pending and due, a
  frame callback only when a frame is requested; an event that cannot occur leaves the
  state as it is. The preview stream is acquired and released by \<^verbatim>\<open>startPreview\<close>,
  which runs while idle.

  The browser queues the recorder's \<^verbatim>\<open>stop\<close> event when \<^verbatim>\<open>stop()\<close> is called. The
  model takes the event to be delivered while the ref still holds the stopped recorder,
  that is before the user goes on with Record Again. The \<^verbatim>\<open>onstop\<close> handler of the
  code has no such guard: a delivery after a later Start is outside this model, and
  \<open>reachable\<close> below is relative to that.
\<close>

datatype event =
    Elapse nat
  | Click button
  | ClickStartAudioFails throw_point
  | CountdownInterval
  | CollectionInterval bool "8 word list"
  | CalibrationTimeout "8 word list"
  | AnimationFrame "8 word list"
  | SilenceTimeout
  | RecorderStopEvent
  | PreviewStarted
  | PreviewStopped

definition step :: "event \<Rightarrow> app \<Rightarrow> app" where
  "step e s =
     (case e of
        Elapse d \<Rightarrow> s\<lparr>now := now s + d\<rparr>
      | Click b \<Rightarrow> click b None s
      | ClickStartAudioFails p \<Rightarrow> click StartRecording (Some p) s
      | CountdownInterval \<Rightarrow>
          (case calibrationRun s of
             Some c \<Rightarrow> if countdownDue c \<le> now s then countdownTick c s else s
           | None \<Rightarrow> s)
      | CollectionInterval running dataArray \<Rightarrow>
          (case calibrationRun s of
             Some c \<Rightarrow>
               if collectionDue c \<le> now s
               then collectCalibrationData c running dataArray s else s
           | None \<Rightarrow> s)
      | CalibrationTimeout dataArray \<Rightarrow>
          (case calibrationRun s of
             Some c \<Rightarrow> if calibrationDue c \<le> now s then calibrationDone c dataArray s else s
           | None \<Rightarrow> s)
      | AnimationFrame dataArray \<Rightarrow>
          (case animationFrame s of
             Some cl \<Rightarrow> runAudioAnalysis cl dataArray s
           | None \<Rightarrow> s)
      | SilenceTimeout \<Rightarrow>
          (case silenceTimerRef s of
             Some t \<Rightarrow>
               if live t \<and> due t \<le> now s
               then silenceTimerCallback (s\<lparr>silenceTimerRef := Some (t\<lparr>live := False\<rparr>)\<rparr>)
               else s
           | None \<Rightarrow> s)
      | RecorderStopEvent \<Rightarrow>
          if mediaRecorderRef s = Some inactive then recorderOnstop s else s
      | PreviewStarted \<Rightarrow>
          if recordingState s = IDLE then s\<lparr>streamRef := True\<rparr> else s
      | PreviewStopped \<Rightarrow>
          if recordingState s = IDLE then stopPreviewStream s else s)"

definition run :: "event list \<Rightarrow> app \<Rightarrow> app" where
  "run es s = foldl (\<lambda>s e. step e s) s es"

inductive reachable :: "app \<Rightarrow> bool" where
  reachable_initial: "reachable initial"
| reachable_step: "reachable s \<Longrightarrow> reachable (step e s)"

subsection \<open>Invariant of the reachable states\<close>

text \<open>
  What holds in every state the events can lead to from \<open>initial\<close>: the tightness is
  within its bounds, and in each recording state the recorder, the frame loop and the
  calibration timers are as that state expects. The frame loop and the calibration
  always carry the closure of an idle session (\<open>recordingState = IDLE\<close>,
  \<open>isManuallyPaused = False\<close>) with the tightness of the session.
\<close>

definition session_inv :: "app \<Rightarrow> bool" where
  "session_inv s =
     (let cl = \<lparr>cl_recordingState = IDLE, cl_isManuallyPaused = False,
                cl_pauseTightness = pauseTightness s\<rparr>
      in - 5 \<le> pauseTightness s \<and> pauseTightness s \<le> 5 \<and> (case recordingState s of
        IDLE \<Rightarrow> \<not> isManuallyPaused s \<and> animationFrame s = None \<and> calibrationRun s = None
                 \<and> mediaRecorderRef s = None
      | CALIBRATING \<Rightarrow> animationFrame s = None \<and> mediaRecorderRef s = None
                 \<and> streamRef s \<and> analyserRef s
                 \<and> (case calibrationRun s of None \<Rightarrow> False | Some c \<Rightarrow> captured c = cl)
      | RECORDING \<Rightarrow> mediaRecorderRef s = Some recording \<and> calibrationRun s = None
                 \<and> animationFrame s = Some cl \<and> analyserRef s
      | PAUSED \<Rightarrow> mediaRecorderRef s = Some paused \<and> calibrationRun s = None
                 \<and> animationFrame s = Some cl \<and> analyserRef s
      | STOPPED \<Rightarrow> (mediaRecorderRef s = Some inactive \<or> mediaRecorderRef s = None)
                 \<and> animationFrame s = None \<and> calibrationRun s = None))"

subsection \<open>Reference sessions\<close>

text \<open>
  The 59 runs of \<^verbatim>\<open>collectCalibrationData\<close> that fit into a calibration window
  (one every 50 ms), each reading the same bins. The countdown interval only changes the
  displayed countdown and is left out of the reference traces.
\<close>

definition collection_ticks :: "nat \<Rightarrow> 8 word list \<Rightarrow> event list" where
  "collection_ticks n dataArray =
     concat (replicate n [Elapse 50, CollectionInterval True dataArray])"

text \<open>
  \<open>calibrated\<close>: right after a calibration at tightness 0 in which every sample came
  from 128 bins of magnitude 10, so that the baseline is 10; the first analysis run sees
  bins of magnitude 30. \<open>pause_pending\<close>: recording, 300 ms after a Silent sample armed
  the pause timer. \<open>auto_paused\<close>: paused by that timer. \<open>overridden\<close>: paused by the
  button, resumed by a loud frame, and silent again for 400 ms. \<open>tight_session\<close> and
  \<open>loose_session\<close>: as \<open>calibrated\<close>, after six clicks on the plus button and on the
  minus button of the tightness setting; the sixth click finds its button disabled.
\<close>

definition calibrated :: app where
  "calibrated = run ([PreviewStarted, Click StartRecording]
     @ collection_ticks 59 (replicate 128 10)
     @ [Elapse 50, CalibrationTimeout (replicate 128 30)]) initial"

definition tight_session :: app where
  "tight_session = run ([Click TightnessPlus, Click TightnessPlus, Click TightnessPlus,
       Click TightnessPlus, Click TightnessPlus, Click TightnessPlus]
     @ [PreviewStarted, Click StartRecording]
     @ collection_ticks 59 (replicate 128 10)
     @ [Elapse 50, CalibrationTimeout (replicate 128 30)]) initial"

definition loose_session :: app where
  "loose_session = run ([Click TightnessMinus, Click TightnessMinus, Click TightnessMinus,
       Click TightnessMinus, Click TightnessMinus, Click TightnessMinus]
     @ [PreviewStarted, Click StartRecording]
     @ collection_ticks 59 (replicate 128 10)
     @ [Elapse 50, CalibrationTimeout (replicate 128 30)]) initial"

definition pause_pending :: app where
  "pause_pending = run [AnimationFrame (replicate 128 5), Elapse 300] calibrated"

definition auto_paused :: app where
  "auto_paused = run [AnimationFrame (replicate 128 5), Elapse 400, SilenceTimeout] calibrated"

definition overridden :: app where
  "overridden = run [Click PauseButton, AnimationFrame (replicate 128 30),
     AnimationFrame (replicate 128 5), Elapse 400] calibrated"

text \<open>
  A predicate on events, used to state properties: the events that leave a paused
  session paused (no click, no Loud sample).
\<close>

fun quiet_event :: "jsnum \<Rightarrow> event \<Rightarrow> bool" where
  "quiet_event threshold (AnimationFrame dataArray) =
     (\<not> isLoudEnoughToResume (averageVolume dataArray) threshold)"
| "quiet_event threshold (Click b) = False"
| "quiet_event threshold (ClickStartAudioFails p) = False"
| "quiet_event threshold e = True"

section \<open>Auxiliary facts\<close>

subsection \<open>The invariant holds in every reachable state\<close>

lemma inv_initial: "session_inv initial"
  by (simp add: session_inv_def initial_def)



lemma inv_elapse: "session_inv s \<Longrightarrow> session_inv (step (Elapse d) s)"
  by (cases "recordingState s") (simp_all add: step_def session_inv_def)

lemma inv_countdown: "session_inv s \<Longrightarrow> session_inv (step CountdownInterval s)"
  by (cases "recordingState s")
    (auto simp: step_def session_inv_def countdownTick_def split: option.splits)

lemma inv_collect: "session_inv s \<Longrightarrow> session_inv (step (CollectionInterval r d) s)"
  by (cases "recordingState s")
    (auto simp: step_def session_inv_def collectCalibrationData_def split: option.splits)

lemma inv_silence: "session_inv s \<Longrightarrow> session_inv (step SilenceTimeout s)"
  by (cases "recordingState s")
    (auto simp: step_def session_inv_def silenceTimerCallback_def split: option.splits)

lemma inv_onstop: "session_inv s \<Longrightarrow> session_inv (step RecorderStopEvent s)"
  by (cases "recordingState s")
    (auto simp: step_def session_inv_def recorderOnstop_def cleanupRecording_def
      stopPreviewStream_def split: option.splits)

lemma inv_preview_started: "session_inv s \<Longrightarrow> session_inv (step PreviewStarted s)"
  by (cases "recordingState s") (auto simp: step_def session_inv_def)

lemma inv_preview_stopped: "session_inv s \<Longrightarrow> session_inv (step PreviewStopped s)"
  by (cases "recordingState s") (auto simp: step_def session_inv_def stopPreviewStream_def)

lemma inv_frame: "session_inv s \<Longrightarrow> session_inv (step (AnimationFrame d) s)"
  by (cases "recordingState s")
    (auto simp: step_def session_inv_def runAudioAnalysis_def Let_def split: option.splits)

lemma inv_calibration_timeout:
  "session_inv s \<Longrightarrow> session_inv (step (CalibrationTimeout d) s)"
  by (cases "recordingState s")
    (auto simp: step_def session_inv_def calibrationDone_def startActualRecording_def
      runAudioAnalysis_def Let_def split: option.splits)

lemma inv_start: "session_inv s \<Longrightarrow> session_inv (click StartRecording ok s)"
  by (cases "recordingState s")
    (auto simp: click_def session_inv_def startCalibration_def cleanupRecording_def Let_def)

lemma inv_pause: "session_inv s \<Longrightarrow> session_inv (click PauseButton ok s)"
  by (cases "recordingState s")
    (auto simp: click_def session_inv_def handleManualPause_def)

lemma inv_resume: "session_inv s \<Longrightarrow> session_inv (click ResumeButton ok s)"
  by (cases "recordingState s")
    (auto simp: click_def session_inv_def handleResume_def)

lemma inv_stop: "session_inv s \<Longrightarrow> session_inv (click StopButton ok s)"
  by (cases "recordingState s")
    (auto simp: click_def session_inv_def stopRecording_def Let_def split: option.splits)

lemma inv_reset: "session_inv s \<Longrightarrow> session_inv (click RecordAgain ok s)"
  by (cases "recordingState s")
    (auto simp: click_def session_inv_def handleReset_def cleanupRecording_def)

lemma inv_tightness:
  "session_inv s \<Longrightarrow> session_inv (click TightnessMinus ok s)"
  "session_inv s \<Longrightarrow> session_inv (click TightnessPlus ok s)"
  by (cases "recordingState s";
      auto simp: click_def session_inv_def handleTightnessChange_def clampTightness_def)+

lemma inv_click: "session_inv s \<Longrightarrow> session_inv (click b ok s)"
  by (cases b) (simp_all add: inv_start inv_pause inv_resume inv_stop inv_reset inv_tightness)

lemma step_click: "step (Click b) s = click b None s"
  "step (ClickStartAudioFails p) s = click StartRecording (Some p) s"
  by (simp_all add: step_def)

lemma inv_step: "session_inv s \<Longrightarrow> session_inv (step e s)"
  by (cases e)
    (simp_all add: inv_elapse inv_countdown inv_collect inv_silence inv_onstop
      inv_preview_started inv_preview_stopped inv_frame inv_calibration_timeout
      step_click inv_click)

lemma reachable_inv: "reachable s \<Longrightarrow> session_inv s"
  by (induction rule: reachable.induct) (simp_all add: inv_initial inv_step)


lemma reachable_run: "reachable s \<Longrightarrow> reachable (run es s)"
proof (induction es arbitrary: s)
  case Nil
  then show ?case by (simp add: run_def)
next
  case (Cons e es)
  from Cons.prems have "reachable (step e s)" by (rule reachable_step)
  then have "reachable (run es (step e s))" by (rule Cons.IH)
  then show ?case by (simp add: run_def)
qed

lemma run_Cons: "run (e # es) s = run es (step e s)" and run_Nil: "run [] s = s"
  by (simp_all add: run_def)

lemma run_append: "run (es @ es') s = run es' (run es s)"
  by (simp add: run_def)

lemma step_Elapse: "step (Elapse d) s = s\<lparr>now := now s + d\<rparr>"
  by (simp add: step_def)

lemma step_SilenceTimeout:
  "step SilenceTimeout s =
     (case silenceTimerRef s of
        Some t \<Rightarrow>
          if live t \<and> due t \<le> now s
          then silenceTimerCallback (s\<lparr>silenceTimerRef := Some (t\<lparr>live := False\<rparr>)\<rparr>)
          else s
      | None \<Rightarrow> s)"
  by (simp add: step_def)

subsection \<open>Sums and means\<close>

lemma foldl_bins:
  "foldl (\<lambda>acc val. js_add acc (Finite (real (unat val)))) (Finite a) dataArray
     = Finite (a + real (sum_list (map unat dataArray)))"
  by (induction dataArray arbitrary: a) (simp_all add: add.assoc)

lemma averageVolume_nonempty:
  "dataArray \<noteq> [] \<Longrightarrow>
     averageVolume dataArray
       = Finite (real (sum_list (map unat dataArray)) / real (length dataArray))"
  unfolding averageVolume_def foldl_bins by simp

lemma averageVolume_replicate:
  "0 < n \<Longrightarrow> averageVolume (replicate n x) = Finite (real (unat x))"
  by (simp add: averageVolume_nonempty sum_list_replicate)

lemma foldl_samples_Finite:
  "foldl js_add (Finite a) (replicate n (Finite x)) = Finite (a + real n * x)"
  by (induction n arbitrary: a) (simp_all add: algebra_simps)

subsection \<open>The reference sessions, evaluated\<close>

lemmas eval_defs = run_Cons run_Nil step_def click_def initial_def startCalibration_def 
  collectCalibrationData_def calibrationDone_def startActualRecording_def runAudioAnalysis_def
  averageVolume_replicate calibrationBaseline_def calibrationAverage_def isSilent_def
  isLoudEnoughToResume_def js_greater_def SILENCE_MULTIPLIER_def SOUND_MULTIPLIER_def
  silenceDetectionTime_def BASE_SILENCE_DETECTION_TIME_MS_def PAUSE_TIGHTNESS_STEP_MS_def
  CALIBRATION_TIME_MS_def Let_def silenceTimerCallback_def handleManualPause_def
  handleResume_def stopRecording_def foldl_samples_Finite

lemma collection_tick:
  assumes "calibrationRun s = Some c" "audioContextRef s" "analyserRef s"
    "collectionDue c \<le> now s + 50"
  shows "run [Elapse 50, CollectionInterval True dataArray] s
    = s\<lparr>now := now s + 50,
         calibrationRun := Some (c\<lparr>calibrationData :=
                                     calibrationData c @ [averageVolume dataArray],
                                   collectionDue := now s + 100\<rparr>)\<rparr>"
  using assms
  by (simp add: run_Cons run_Nil step_def collectCalibrationData_def Let_def)

lemma collection_ticks_run:
  assumes "calibrationRun s = Some c" "audioContextRef s" "analyserRef s"
    "collectionDue c = now s + 50"
  shows "run (collection_ticks n dataArray) s
    = s\<lparr>now := now s + 50 * n,
         calibrationRun := Some (c\<lparr>calibrationData :=
                                     calibrationData c @ replicate n (averageVolume dataArray),
                                   collectionDue := now s + 50 * n + 50\<rparr>)\<rparr>"
  using assms
proof (induction n arbitrary: s c)
  case 0
  then show ?case by (simp add: collection_ticks_def run_Nil)
next
  case (Suc n)
  let ?c = "c\<lparr>calibrationData := calibrationData c @ [averageVolume dataArray],
               collectionDue := now s + 100\<rparr>"
  let ?s = "s\<lparr>now := now s + 50, calibrationRun := Some ?c\<rparr>"
  have le: "collectionDue c \<le> now s + 50" using Suc.prems(4) by simp
  have one: "run [Elapse 50, CollectionInterval True dataArray] s = ?s"
    by (rule collection_tick [OF Suc.prems(1-3) le])
  have split: "collection_ticks (Suc n) dataArray
      = [Elapse 50, CollectionInterval True dataArray] @ collection_ticks n dataArray"
    by (simp add: collection_ticks_def)
  have rest: "run (collection_ticks n dataArray) ?s
      = ?s\<lparr>now := now ?s + 50 * n,
           calibrationRun := Some (?c\<lparr>calibrationData :=
               calibrationData ?c @ replicate n (averageVolume dataArray),
             collectionDue := now ?s + 50 * n + 50\<rparr>)\<rparr>"
    using Suc.prems(2,3) by (intro Suc.IH) simp_all
  show ?case
    unfolding split run_append one rest
    by (simp add: replicate_app_Cons_same)
qed

lemma started_eq: "run [PreviewStarted, Click StartRecording] initial =
     \<lparr>recordingState = CALIBRATING, isManuallyPaused = False, pauseTightness = 0,
      calibrationCountdown = 3000, error = None, streamRef = True,
      mediaRecorderRef = None, audioContextRef = True, analyserRef = True,
      silenceTimerRef = None, silenceThresholdRef = Finite 0, animationFrame = None,
      calibrationRun = Some \<lparr>calibrationData = [], countdownDue = 100,
        collectionDue = 50, calibrationDue = 3000,
        captured = \<lparr>cl_recordingState = IDLE, cl_isManuallyPaused = False,
          cl_pauseTightness = 0\<rparr>\<rparr>,
      now = 0\<rparr>"
  by (simp add: eval_defs)

lemma collected_eq: "run (collection_ticks n dataArray) (run [PreviewStarted, Click StartRecording] initial) =
     \<lparr>recordingState = CALIBRATING, isManuallyPaused = False, pauseTightness = 0,
      calibrationCountdown = 3000, error = None, streamRef = True,
      mediaRecorderRef = None, audioContextRef = True, analyserRef = True,
      silenceTimerRef = None, silenceThresholdRef = Finite 0, animationFrame = None,
      calibrationRun = Some \<lparr>calibrationData = replicate n (averageVolume dataArray),
        countdownDue = 100, collectionDue = 50 * n + 50, calibrationDue = 3000,
        captured = \<lparr>cl_recordingState = IDLE, cl_isManuallyPaused = False,
          cl_pauseTightness = 0\<rparr>\<rparr>,
      now = 50 * n\<rparr>"
  unfolding started_eq
  by (simp add: collection_ticks_run
      [of _ "\<lparr>calibrationData = [], countdownDue = 100, collectionDue = 50,
        calibrationDue = 3000, captured = \<lparr>cl_recordingState = IDLE,
        cl_isManuallyPaused = False, cl_pauseTightness = 0\<rparr>\<rparr>"])

lemma calibrated_eq: "calibrated = 
     \<lparr>recordingState = RECORDING, isManuallyPaused = False, pauseTightness = 0,
      calibrationCountdown = 3000, error = None, streamRef = True,
      mediaRecorderRef = Some recording, audioContextRef = True, analyserRef = True,
      silenceTimerRef = None, silenceThresholdRef = Finite 10, 
      animationFrame = Some \<lparr>cl_recordingState = IDLE, cl_isManuallyPaused = False, cl_pauseTightness = 0\<rparr>,
      calibrationRun = None, now = 3000\<rparr>"
  unfolding calibrated_def run_append collected_eq
  by (simp add: eval_defs foldl_samples_Finite)

lemma calibrated_reachable: "reachable calibrated"
  unfolding calibrated_def by (rule reachable_run) (rule reachable_initial)

lemma session_at:
  "run ([PreviewStarted, Click StartRecording] @ collection_ticks 59 (replicate 128 10)
        @ [Elapse 50, CalibrationTimeout (replicate 128 30)]) (initial\<lparr>pauseTightness := t\<rparr>)
     = \<lparr>recordingState = RECORDING, isManuallyPaused = False, pauseTightness = t,
        calibrationCountdown = 3000, error = None, streamRef = True,
        mediaRecorderRef = Some recording, audioContextRef = True, analyserRef = True,
        silenceTimerRef = None, silenceThresholdRef = Finite 10,
        animationFrame = Some \<lparr>cl_recordingState = IDLE, cl_isManuallyPaused = False,
          cl_pauseTightness = t\<rparr>,
        calibrationRun = None, now = 3000\<rparr>"
proof -
  let ?c = "\<lparr>calibrationData = [], countdownDue = 100, collectionDue = 50,
      calibrationDue = 3000, captured = \<lparr>cl_recordingState = IDLE,
        cl_isManuallyPaused = False, cl_pauseTightness = t\<rparr>\<rparr>"
  let ?s = "\<lparr>recordingState = CALIBRATING, isManuallyPaused = False, pauseTightness = t,
      calibrationCountdown = 3000, error = None, streamRef = True,
      mediaRecorderRef = None, audioContextRef = True, analyserRef = True,
      silenceTimerRef = None, silenceThresholdRef = Finite 0, animationFrame = None,
      calibrationRun = Some ?c, now = 0\<rparr>"
  have started: "run [PreviewStarted, Click StartRecording] (initial\<lparr>pauseTightness := t\<rparr>)
      = ?s"
    by (simp add: eval_defs)
  have collected: "run (collection_ticks 59 (replicate 128 10)) ?s
      = ?s\<lparr>now := 2950,
           calibrationRun := Some (?c\<lparr>calibrationData := replicate 59 (Finite 10),
             collectionDue := 3000\<rparr>)\<rparr>"
    by (simp add: collection_ticks_run [of _ ?c] averageVolume_replicate)
  show ?thesis
    unfolding run_append started collected by (simp add: eval_defs)
qed

lemma plus_clicks:
  "run [Click TightnessPlus, Click TightnessPlus, Click TightnessPlus, Click TightnessPlus,
        Click TightnessPlus, Click TightnessPlus] initial = initial\<lparr>pauseTightness := 5\<rparr>"
  by (simp add: eval_defs handleTightnessChange_def clampTightness_def)

lemma minus_clicks:
  "run [Click TightnessMinus, Click TightnessMinus, Click TightnessMinus, Click TightnessMinus,
        Click TightnessMinus, Click TightnessMinus] initial = initial\<lparr>pauseTightness := - 5\<rparr>"
  by (simp add: eval_defs handleTightnessChange_def clampTightness_def)

lemma tight_session_eq: "tight_session =
     \<lparr>recordingState = RECORDING, isManuallyPaused = False, pauseTightness = 5,
      calibrationCountdown = 3000, error = None, streamRef = True,
      mediaRecorderRef = Some recording, audioContextRef = True, analyserRef = True,
      silenceTimerRef = None, silenceThresholdRef = Finite 10,
      animationFrame = Some \<lparr>cl_recordingState = IDLE, cl_isManuallyPaused = False,
        cl_pauseTightness = 5\<rparr>,
      calibrationRun = None, now = 3000\<rparr>"
  unfolding tight_session_def run_append [of "[Click TightnessPlus, Click TightnessPlus,
      Click TightnessPlus, Click TightnessPlus, Click TightnessPlus, Click TightnessPlus]"]
    plus_clicks
  by (rule session_at)

lemma loose_session_eq: "loose_session =
     \<lparr>recordingState = RECORDING, isManuallyPaused = False, pauseTightness = - 5,
      calibrationCountdown = 3000, error = None, streamRef = True,
      mediaRecorderRef = Some recording, audioContextRef = True, analyserRef = True,
      silenceTimerRef = None, silenceThresholdRef = Finite 10,
      animationFrame = Some \<lparr>cl_recordingState = IDLE, cl_isManuallyPaused = False,
        cl_pauseTightness = - 5\<rparr>,
      calibrationRun = None, now = 3000\<rparr>"
  unfolding loose_session_def run_append [of "[Click TightnessMinus, Click TightnessMinus,
      Click TightnessMinus, Click TightnessMinus, Click TightnessMinus, Click TightnessMinus]"]
    minus_clicks
  by (rule session_at)

lemma tight_session_reachable: "reachable tight_session"
  unfolding tight_session_def by (rule reachable_run) (rule reachable_initial)

lemma loose_session_reachable: "reachable loose_session"
  unfolding loose_session_def by (rule reachable_run) (rule reachable_initial)

lemma initial_reachable_at_bound: "reachable (initial\<lparr>pauseTightness := 5\<rparr>)"
  unfolding plus_clicks [symmetric] by (rule reachable_run) (rule reachable_initial)

lemma pause_pending_eq: "pause_pending =
     \<lparr>recordingState = RECORDING, isManuallyPaused = False, pauseTightness = 0,
      calibrationCountdown = 3000, error = None, streamRef = True,
      mediaRecorderRef = Some recording, audioContextRef = True, analyserRef = True,
      silenceTimerRef = Some \<lparr>due = 3400, live = True\<rparr>, silenceThresholdRef = Finite 10,
      animationFrame = Some \<lparr>cl_recordingState = IDLE, cl_isManuallyPaused = False,
        cl_pauseTightness = 0\<rparr>,
      calibrationRun = None, now = 3300\<rparr>"
  by (simp add: pause_pending_def calibrated_eq eval_defs)

lemma pause_pending_reachable: "reachable pause_pending"
  unfolding pause_pending_def by (rule reachable_run) (rule calibrated_reachable)

lemma auto_paused_eq: "auto_paused =
     \<lparr>recordingState = PAUSED, isManuallyPaused = False, pauseTightness = 0,
      calibrationCountdown = 3000, error = None, streamRef = True,
      mediaRecorderRef = Some paused, audioContextRef = True, analyserRef = True,
      silenceTimerRef = Some \<lparr>due = 3400, live = False\<rparr>, silenceThresholdRef = Finite 10,
      animationFrame = Some \<lparr>cl_recordingState = IDLE, cl_isManuallyPaused = False,
        cl_pauseTightness = 0\<rparr>,
      calibrationRun = None, now = 3400\<rparr>"
  by (simp add: auto_paused_def calibrated_eq eval_defs)

lemma auto_paused_reachable: "reachable auto_paused"
  unfolding auto_paused_def by (rule reachable_run) (rule calibrated_reachable)

lemma overridden_eq: "overridden =
     \<lparr>recordingState = RECORDING, isManuallyPaused = True, pauseTightness = 0,
      calibrationCountdown = 3000, error = None, streamRef = True,
      mediaRecorderRef = Some recording, audioContextRef = True, analyserRef = True,
      silenceTimerRef = Some \<lparr>due = 3400, live = True\<rparr>, silenceThresholdRef = Finite 10,
      animationFrame = Some \<lparr>cl_recordingState = IDLE, cl_isManuallyPaused = False,
        cl_pauseTightness = 0\<rparr>,
      calibrationRun = None, now = 3400\<rparr>"
  by (simp add: overridden_def calibrated_eq eval_defs)

lemma overridden_reachable: "reachable overridden"
  unfolding overridden_def by (rule reachable_run) (rule calibrated_reachable)

subsection \<open>Single steps from reachable states\<close>

lemma paused_facts:
  assumes "reachable s" "recordingState s = PAUSED"
  shows "mediaRecorderRef s = Some paused \<and> analyserRef s
    \<and> animationFrame s = Some \<lparr>cl_recordingState = IDLE, cl_isManuallyPaused = False,
          cl_pauseTightness = pauseTightness s\<rparr>"
  using reachable_inv [OF assms(1)] assms(2) by (simp add: session_inv_def Let_def)

lemma recording_facts:
  assumes "reachable s" "recordingState s = RECORDING"
  shows "mediaRecorderRef s = Some recording \<and> analyserRef s
    \<and> animationFrame s = Some \<lparr>cl_recordingState = IDLE, cl_isManuallyPaused = False,
          cl_pauseTightness = pauseTightness s\<rparr>"
  using reachable_inv [OF assms(1)] assms(2) by (simp add: session_inv_def Let_def)

lemma frame_resumes:
  assumes "reachable s" "recordingState s = PAUSED"
    "isLoudEnoughToResume (averageVolume dataArray) (silenceThresholdRef s)"
  shows "step (AnimationFrame dataArray) s
           = s\<lparr>mediaRecorderRef := Some recording, recordingState := RECORDING\<rparr>"
  using paused_facts [OF assms(1,2)] assms(3)
  by (simp add: step_def runAudioAnalysis_def Let_def)

lemma frame_cancels:
  assumes "reachable s" "recordingState s = RECORDING" "silenceTimerRef s = Some t"
    "\<not> isSilent (averageVolume dataArray) (silenceThresholdRef s)"
  shows "step (AnimationFrame dataArray) s = s\<lparr>silenceTimerRef := None\<rparr>"
  using recording_facts [OF assms(1,2)] assms(3,4)
  by (simp add: step_def runAudioAnalysis_def Let_def)

lemma frame_arms:
  assumes "reachable s" "recordingState s = RECORDING" "silenceTimerRef s = None"
    "isSilent (averageVolume dataArray) (silenceThresholdRef s)"
  shows "step (AnimationFrame dataArray) s
           = s\<lparr>silenceTimerRef := Some \<lparr>due = now s
                   + nat (silenceDetectionTime (pauseTightness s)), live = True\<rparr>\<rparr>"
  using recording_facts [OF assms(1,2)] assms(3,4)
  by (simp add: step_def runAudioAnalysis_def Let_def)

lemma timeout_pauses:
  assumes "reachable s" "recordingState s = RECORDING" "silenceTimerRef s = Some t"
    "live t" "due t \<le> now s"
  shows "step SilenceTimeout s
           = s\<lparr>silenceTimerRef := Some (t\<lparr>live := False\<rparr>), isManuallyPaused := False,
               mediaRecorderRef := Some paused, recordingState := PAUSED\<rparr>"
  using recording_facts [OF assms(1,2)] assms(3-5)
  by (simp add: step_def silenceTimerCallback_def)

lemma paused_step_quiet:
  assumes "reachable s" "recordingState s = PAUSED" "quiet_event (silenceThresholdRef s) e"
  shows "recordingState (step e s) = PAUSED
    \<and> silenceThresholdRef (step e s) = silenceThresholdRef s"
  using paused_facts [OF assms(1,2)] reachable_inv [OF assms(1)] assms(2,3)
  by (cases e)
    (auto simp: step_def runAudioAnalysis_def Let_def session_inv_def
      silenceTimerCallback_def recorderOnstop_def split: option.splits)

lemma paused_run_quiet:
  assumes "reachable s" "recordingState s = PAUSED"
    "\<forall>e \<in> set es. quiet_event (silenceThresholdRef s) e"
  shows "recordingState (run es s) = PAUSED
    \<and> silenceThresholdRef (run es s) = silenceThresholdRef s"
  using assms
proof (induction es arbitrary: s)
  case Nil
  then show ?case by (simp add: run_Nil)
next
  case (Cons e es)
  have q: "quiet_event (silenceThresholdRef s) e" using Cons.prems(3) by simp
  note st = paused_step_quiet [OF Cons.prems(1,2) q]
  have "reachable (step e s)" using Cons.prems(1) by (rule reachable_step)
  moreover have "recordingState (step e s) = PAUSED" using st by simp
  moreover have "\<forall>e' \<in> set es. quiet_event (silenceThresholdRef (step e s)) e'"
    using Cons.prems(3) st by simp
  ultimately show ?case
    using Cons.IH [of "step e s"] st by (simp add: run_Cons)
qed

section \<open>Properties\<close>

text \<open>
  Claim C1. For every baseline \<open>b \<ge> 1\<close> and every volume \<open>v\<close> (a finite number,
  an infinity or NaN), the sample is classified Silent exactly when \<open>v < 2.0 * b\<close> and
  Loud exactly when \<open>v > 2.5 * b\<close>; the two never hold together, and a sample that is
  neither is the Neutral one.
\<close>

theorem classification_thresholds:
  "1 \<le> b \<Longrightarrow>
     isSilent v (Finite b) = js_less v (Finite (2.0 * b))
   \<and> isLoudEnoughToResume v (Finite b) = js_greater v (Finite (2.5 * b))
   \<and> \<not> (isSilent v (Finite b) \<and> isLoudEnoughToResume v (Finite b))
   \<and> isSilent (Finite x) (Finite b) = (x < 2.0 * b)
   \<and> isLoudEnoughToResume (Finite x) (Finite b) = (x > 2.5 * b)"
proof -
  assume b: "1 \<le> b"
  have silent: "isSilent w (Finite b) = js_less w (Finite (2.0 * b))" for w
    by (simp add: isSilent_def SILENCE_MULTIPLIER_def mult.commute)
  have loud: "isLoudEnoughToResume w (Finite b) = js_greater w (Finite (2.5 * b))" for w
    by (simp add: isLoudEnoughToResume_def SOUND_MULTIPLIER_def mult.commute)
  have excl: "\<not> (js_less v (Finite (2.0 * b)) \<and> js_greater v (Finite (2.5 * b)))"
    using b by (cases v) (auto simp: js_greater_def)
  show ?thesis
    using excl by (simp add: silent loud js_greater_def)
qed

theorem classification_thresholds_witness:
  "(1::real) \<le> 10
   \<and> isSilent (Finite 5) (Finite 10) \<and> \<not> isLoudEnoughToResume (Finite 5) (Finite 10)
   \<and> \<not> isSilent (Finite 26) (Finite 10) \<and> isLoudEnoughToResume (Finite 26) (Finite 10)
   \<and> \<not> isSilent (Finite 22) (Finite 10) \<and> \<not> isLoudEnoughToResume (Finite 22) (Finite 10)"
proof -
  have h: "(1::real) \<le> 10" by simp
  show ?thesis
    using classification_thresholds [OF h, of "Finite 5" 5]
      classification_thresholds [OF h, of "Finite 26" 26]
      classification_thresholds [OF h, of "Finite 22" 22]
    by (simp add: js_greater_def)
qed

text \<open>
  Claim C2. An adjustment of the pause tightness by \<open>delta\<close> sets it to
  \<open>prev + delta\<close> clamped to \<open>[-5, 5]\<close>: to \<open>-5\<close> below the range, to \<open>5\<close> above it,
  to \<open>prev + delta\<close> itself inside, and changes nothing else. The two buttons move the
  tightness of an idle session by one step and stop at the bounds, so the tightness of
  every reachable state is in the range. The debounce delay is \<open>400 - 50 * t\<close> ms,
  strictly decreasing in \<open>t\<close>, with 650, 400 and 150 ms at \<open>t = -5, 0, 5\<close>, and the
  pause timer armed by a Silent sample while recording is due that delay after the
  current time.
\<close>

theorem tightness_clamped_and_delay:
  "clampTightness prev delta
     = (if prev + delta < - 5 then - 5 else if 5 < prev + delta then 5 else prev + delta)
   \<and> - 5 \<le> clampTightness prev delta \<and> clampTightness prev delta \<le> 5
   \<and> handleTightnessChange delta s
       = s\<lparr>pauseTightness := clampTightness (pauseTightness s) delta\<rparr>
   \<and> pauseTightness (handleTightnessChange delta s) = clampTightness (pauseTightness s) delta
   \<and> (reachable s \<longrightarrow> - 5 \<le> pauseTightness s \<and> pauseTightness s \<le> 5)
   \<and> (reachable i \<and> recordingState i = IDLE \<longrightarrow>
          step (Click TightnessPlus) i
            = i\<lparr>pauseTightness := min 5 (pauseTightness i + 1)\<rparr>
        \<and> step (Click TightnessMinus) i
            = i\<lparr>pauseTightness := max (- 5) (pauseTightness i - 1)\<rparr>)
   \<and> silenceDetectionTime t = 400 - 50 * t
   \<and> (t1 < t2 \<longrightarrow> silenceDetectionTime t2 < silenceDetectionTime t1)
   \<and> silenceDetectionTime (- 5) = 650 \<and> silenceDetectionTime 0 = 400
   \<and> silenceDetectionTime 5 = 150
   \<and> (reachable s \<and> recordingState s = RECORDING \<and> silenceTimerRef s = None
        \<and> isSilent (averageVolume dataArray) (silenceThresholdRef s) \<longrightarrow>
        silenceTimerRef (step (AnimationFrame dataArray) s)
          = Some \<lparr>due = now s + nat (400 - 50 * pauseTightness s), live = True\<rparr>)"
proof -
  have exact: "clampTightness prev delta
      = (if prev + delta < - 5 then - 5 else if 5 < prev + delta then 5 else prev + delta)"
    by (simp add: clampTightness_def)
  have clamp: "- 5 \<le> clampTightness prev delta \<and> clampTightness prev delta \<le> 5"
    by (simp add: clampTightness_def)
  have range: "- 5 \<le> pauseTightness u \<and> pauseTightness u \<le> 5" if "reachable u" for u
    using reachable_inv [OF that] by (simp add: session_inv_def Let_def)
  have plus: "step (Click TightnessPlus) i = i\<lparr>pauseTightness := min 5 (pauseTightness i + 1)\<rparr>"
    if "reachable i" "recordingState i = IDLE"
    using range [OF that(1)] that(2)
    by (simp add: step_def click_def handleTightnessChange_def clampTightness_def)
  have minus: "step (Click TightnessMinus) i
      = i\<lparr>pauseTightness := max (- 5) (pauseTightness i - 1)\<rparr>"
    if "reachable i" "recordingState i = IDLE"
    using range [OF that(1)] that(2)
    by (simp add: step_def click_def handleTightnessChange_def clampTightness_def)
  have delay: "silenceDetectionTime u = 400 - 50 * u" for u
    by (simp add: silenceDetectionTime_def BASE_SILENCE_DETECTION_TIME_MS_def
        PAUSE_TIGHTNESS_STEP_MS_def)
  have arm: "silenceTimerRef (step (AnimationFrame dataArray) s)
          = Some \<lparr>due = now s + nat (400 - 50 * pauseTightness s), live = True\<rparr>"
    if "reachable s" "recordingState s = RECORDING" "silenceTimerRef s = None"
      "isSilent (averageVolume dataArray) (silenceThresholdRef s)"
    using reachable_inv [OF that(1)] that(2-4)
    by (simp add: session_inv_def step_def runAudioAnalysis_def Let_def delay)
  have handle: "handleTightnessChange delta s
      = s\<lparr>pauseTightness := clampTightness (pauseTightness s) delta\<rparr>"
    by (simp add: handleTightnessChange_def)
  have mono: "silenceDetectionTime t2 < silenceDetectionTime t1" if "t1 < t2"
    using that by (simp add: delay)
  have vals: "silenceDetectionTime (- 5) = 650" "silenceDetectionTime 0 = 400"
    "silenceDetectionTime 5 = 150"
    by (simp_all add: delay)
  show ?thesis
    unfolding handle
    using exact clamp range [of s] plus minus delay [of t] mono vals arm
    by (intro conjI impI) simp_all
qed

theorem tightness_clamped_and_delay_witness:
  "clampTightness 4 1 = 5 \<and> clampTightness 5 1 = 5 \<and> clampTightness (- 5) (- 1) = - 5
   \<and> clampTightness 2 (- 1) = 1
   \<and> reachable (initial\<lparr>pauseTightness := 5\<rparr>)
   \<and> recordingState (initial\<lparr>pauseTightness := 5\<rparr>) = IDLE
   \<and> step (Click TightnessPlus) (initial\<lparr>pauseTightness := 5\<rparr>)
       = initial\<lparr>pauseTightness := 5\<rparr>
   \<and> step (Click TightnessMinus) (initial\<lparr>pauseTightness := 5\<rparr>)
       = initial\<lparr>pauseTightness := 4\<rparr>
   \<and> (0::int) < 1 \<and> silenceDetectionTime 1 < silenceDetectionTime 0
   \<and> reachable tight_session \<and> recordingState tight_session = RECORDING
   \<and> silenceTimerRef tight_session = None \<and> pauseTightness tight_session = 5
   \<and> now tight_session = 3000
   \<and> isSilent (averageVolume (replicate 128 5)) (silenceThresholdRef tight_session)
   \<and> silenceTimerRef (step (AnimationFrame (replicate 128 5)) tight_session)
        = Some \<lparr>due = 3150, live = True\<rparr>
   \<and> reachable loose_session \<and> recordingState loose_session = RECORDING
   \<and> silenceTimerRef loose_session = None \<and> pauseTightness loose_session = - 5
   \<and> now loose_session = 3000
   \<and> isSilent (averageVolume (replicate 128 5)) (silenceThresholdRef loose_session)
   \<and> silenceTimerRef (step (AnimationFrame (replicate 128 5)) loose_session)
        = Some \<lparr>due = 3650, live = True\<rparr>"
proof -
  have idle: "recordingState (initial\<lparr>pauseTightness := 5\<rparr>) = IDLE"
    by (simp add: initial_def)
  have quiet: "isSilent (averageVolume (replicate 128 5)) (Finite 10)"
    by (simp add: averageVolume_replicate isSilent_def SILENCE_MULTIPLIER_def)
  show ?thesis
    using tightness_clamped_and_delay [of 4 1 tight_session "initial\<lparr>pauseTightness := 5\<rparr>"
        1 0 1 "replicate 128 5"]
      tightness_clamped_and_delay [of 5 1 loose_session "initial\<lparr>pauseTightness := 5\<rparr>"
        1 0 1 "replicate 128 5"]
      tightness_clamped_and_delay [of "- 5" "- 1"]
      tightness_clamped_and_delay [of 2 "- 1"]
      tight_session_reachable loose_session_reachable initial_reachable_at_bound idle quiet
    by (simp add: tight_session_eq loose_session_eq)
qed

text \<open>
  Claim C3, as stated: the baseline computed at the end of the calibration window is
  always at least 1. It is not: when every sample of the window comes from 128 bins of
  which half are 1 and half are 0, each sample is 0.5, and the baseline applied at the
  end of the calibration is 0.5.
\<close>

theorem calibration_baseline_below_one:
  "silenceThresholdRef
     (run ([PreviewStarted, Click StartRecording]
        @ collection_ticks 59 (replicate 64 1 @ replicate 64 0)
        @ [Elapse 50, CalibrationTimeout (replicate 128 30)]) initial) = Finite (1 / 2)
   \<and> calibrationBaseline [averageVolume (replicate 64 1 @ replicate 64 0)] = Finite (1 / 2)
   \<and> js_less (Finite (1 / 2)) (Finite 1)"
  unfolding run_append collected_eq
  by (simp add: eval_defs averageVolume_nonempty sum_list_replicate)

text \<open>
  Claim C3, amended. For every sequence of collected samples the baseline is greater than
  0 (never 0, never NaN): it is the mean of the samples when that mean is greater than 0,
  and exactly 1 when no sample was collected or the mean is exactly 0.
\<close>

theorem calibration_baseline_positive:
  "js_greater (calibrationBaseline samples) (Finite 0)
   \<and> calibrationBaseline samples \<noteq> Finite 0
   \<and> calibrationBaseline samples \<noteq> NaN
   \<and> (samples = [] \<longrightarrow> calibrationBaseline samples = Finite 1)
   \<and> (calibrationAverage samples = Finite 0 \<longrightarrow>
        calibrationBaseline samples = Finite 1)
   \<and> (samples \<noteq> [] \<and> js_greater (calibrationAverage samples) (Finite 0) \<longrightarrow>
        calibrationBaseline samples = calibrationAverage samples)"
  by (cases "calibrationAverage samples")
    (auto simp: calibrationBaseline_def Let_def js_greater_def)

theorem calibration_baseline_positive_witness:
  "calibrationBaseline [] = Finite 1
   \<and> calibrationAverage [Finite 0, Finite 0] = Finite 0
   \<and> calibrationBaseline [Finite 0, Finite 0] = Finite 1
   \<and> [Finite 12, Finite 8] \<noteq> [] \<and> js_greater (calibrationAverage [Finite 12, Finite 8]) (Finite 0)
   \<and> calibrationBaseline [Finite 12, Finite 8] = Finite 10"
  using calibration_baseline_positive [of "[]"]
    calibration_baseline_positive [of "[Finite 0, Finite 0]"]
    calibration_baseline_positive [of "[Finite 12, Finite 8]"]
  by (simp add: calibrationAverage_def js_greater_def)

text \<open>
  Claim C4, evaluated where it fails. In the reference session the pause timer has fired
  (\<open>auto_paused\<close>) and one Loud frame resumes the recording. \<^verbatim>\<open>silenceTimerRef\<close>
  still holds the handle of the fired timer, so the Silent samples that follow arm no
  timer: after 10 seconds of them the session is still recording, and nothing but the
  clock has changed since the resume.
\<close>

theorem silence_after_resume_never_pauses:
  "recordingState auto_paused = PAUSED
   \<and> recordingState (step (AnimationFrame (replicate 128 30)) auto_paused) = RECORDING
   \<and> isSilent (averageVolume (replicate 128 5)) (silenceThresholdRef auto_paused)
   \<and> run [AnimationFrame (replicate 128 30), AnimationFrame (replicate 128 5), Elapse 5000,
          AnimationFrame (replicate 128 5), SilenceTimeout, Elapse 5000,
          AnimationFrame (replicate 128 5), SilenceTimeout] auto_paused
      = auto_paused\<lparr>recordingState := RECORDING, mediaRecorderRef := Some recording,
          now := 13400\<rparr>"
  by (simp add: auto_paused_eq eval_defs)

text \<open>
  Claim C5. While recording with a pause timer armed and not yet fired, one sample that
  is not Silent (Loud or Neutral) clears the timer and the ref, so that the cleared timer
  never fires; the next Silent sample, \<open>k\<close> ms later, arms a new timer due the full
  delay after that sample, which does not pause before the delay has passed since then
  and pauses once it has.
\<close>

theorem nonsilent_sample_cancels_pending_pause:
  assumes "reachable s" and "recordingState s = RECORDING"
    and "silenceTimerRef s = Some t" and "live t"
    and "\<not> isSilent (averageVolume loudArray) (silenceThresholdRef s)"
    and "isSilent (averageVolume quietArray) (silenceThresholdRef s)"
  shows "silenceTimerRef (step (AnimationFrame loudArray) s) = None
    \<and> recordingState (step (AnimationFrame loudArray) s) = RECORDING
    \<and> step SilenceTimeout (run [AnimationFrame loudArray, Elapse k] s)
        = run [AnimationFrame loudArray, Elapse k] s
    \<and> silenceTimerRef (run [AnimationFrame loudArray, Elapse k, AnimationFrame quietArray] s)
        = Some \<lparr>due = now s + k + nat (silenceDetectionTime (pauseTightness s)),
                 live = True\<rparr>
    \<and> (j < nat (silenceDetectionTime (pauseTightness s)) \<longrightarrow>
         recordingState (run [AnimationFrame loudArray, Elapse k, AnimationFrame quietArray,
           Elapse j, SilenceTimeout] s) = RECORDING)
    \<and> (nat (silenceDetectionTime (pauseTightness s)) \<le> j \<longrightarrow>
         recordingState (run [AnimationFrame loudArray, Elapse k, AnimationFrame quietArray,
           Elapse j, SilenceTimeout] s) = PAUSED)"
proof -
  let ?delay = "nat (silenceDetectionTime (pauseTightness s))"
  let ?s1 = "step (AnimationFrame loudArray) s"
  let ?s2 = "step (Elapse k) ?s1"
  let ?s3 = "step (AnimationFrame quietArray) ?s2"
  let ?s4 = "step (Elapse j) ?s3"
  have s1: "?s1 = s\<lparr>silenceTimerRef := None\<rparr>"
    by (rule frame_cancels [OF assms(1,2,3,5)])
  have s2: "?s2 = s\<lparr>silenceTimerRef := None, now := now s + k\<rparr>"
    by (simp add: s1 step_Elapse)
  have r2: "reachable ?s2"
    by (intro reachable_step assms(1))
  have s3: "?s3 = s\<lparr>silenceTimerRef := Some \<lparr>due = now s + k + ?delay, live = True\<rparr>,
      now := now s + k\<rparr>"
    using frame_arms [OF r2, of quietArray] assms(2,6) by (simp add: s2)
  have r4: "reachable ?s4"
    by (intro reachable_step assms(1))
  have s4: "?s4 = s\<lparr>silenceTimerRef := Some \<lparr>due = now s + k + ?delay, live = True\<rparr>,
      now := now s + k + j\<rparr>"
    by (simp only: step_Elapse [of j]) (simp add: s3)
  have early: "recordingState (step SilenceTimeout ?s4) = RECORDING" if "j < ?delay"
    using that assms(2) by (simp add: s4 step_SilenceTimeout)
  have late: "recordingState (step SilenceTimeout ?s4) = PAUSED" if "?delay \<le> j"
    using timeout_pauses [OF r4, of "\<lparr>due = now s + k + ?delay, live = True\<rparr>"] that assms(2)
    by (simp add: s4)
  have idle: "step SilenceTimeout ?s2 = ?s2"
    by (simp add: s2 step_SilenceTimeout)
  have c1: "silenceTimerRef ?s1 = None" and c2: "recordingState ?s1 = RECORDING"
    using assms(2) by (simp_all add: s1)
  have c4: "silenceTimerRef ?s3 = Some \<lparr>due = now s + k + ?delay, live = True\<rparr>"
    unfolding s3 by simp
  show ?thesis
    unfolding run_Cons run_Nil using c1 c2 idle c4 early late by blast
qed

theorem nonsilent_sample_cancels_pending_pause_witness:
  "reachable pause_pending \<and> recordingState pause_pending = RECORDING
   \<and> silenceTimerRef pause_pending = Some \<lparr>due = 3400, live = True\<rparr>
   \<and> now pause_pending = 3300
   \<and> \<not> isSilent (averageVolume (replicate 128 30)) (silenceThresholdRef pause_pending)
   \<and> isSilent (averageVolume (replicate 128 5)) (silenceThresholdRef pause_pending)
   \<and> silenceTimerRef (step (AnimationFrame (replicate 128 30)) pause_pending) = None
   \<and> silenceTimerRef (run [AnimationFrame (replicate 128 30), Elapse 16,
        AnimationFrame (replicate 128 5)] pause_pending)
        = Some \<lparr>due = 3716, live = True\<rparr>
   \<and> recordingState (run [AnimationFrame (replicate 128 30), Elapse 16,
        AnimationFrame (replicate 128 5), Elapse 399, SilenceTimeout] pause_pending)
        = RECORDING
   \<and> recordingState (run [AnimationFrame (replicate 128 30), Elapse 16,
        AnimationFrame (replicate 128 5), Elapse 400, SilenceTimeout] pause_pending)
        = PAUSED"
proof -
  have a: "recordingState pause_pending = RECORDING"
    "silenceTimerRef pause_pending = Some \<lparr>due = 3400, live = True\<rparr>"
    "live \<lparr>due = 3400, live = True\<rparr>"
    by (simp_all add: pause_pending_eq)
  have l: "\<not> isSilent (averageVolume (replicate 128 30)) (silenceThresholdRef pause_pending)"
    and q: "isSilent (averageVolume (replicate 128 5)) (silenceThresholdRef pause_pending)"
    by (simp_all add: pause_pending_eq averageVolume_replicate isSilent_def
        SILENCE_MULTIPLIER_def)
  have d: "nat (silenceDetectionTime (pauseTightness pause_pending)) = 400"
    by (simp add: pause_pending_eq silenceDetectionTime_def
        BASE_SILENCE_DETECTION_TIME_MS_def PAUSE_TIGHTNESS_STEP_MS_def)
  show ?thesis
    using nonsilent_sample_cancels_pending_pause
        [OF pause_pending_reachable a l q, of 16 399]
      nonsilent_sample_cancels_pending_pause
        [OF pause_pending_reachable a l q, of 16 400]
      pause_pending_reachable a l q
    by (simp add: d) (simp add: pause_pending_eq)
qed

text \<open>
  Claim C6, evaluated where it fails. In the reference session the Pause button pauses
  the recording and sets \<open>isManuallyPaused\<close>; the next frame with a Loud sample resumes
  the recording all the same, the flag still set, because the running
  \<^verbatim>\<open>runAudioAnalysis\<close> closure reads the flag as it was when the session started.
\<close>

theorem manual_pause_overridden_by_loud_sample:
  "recordingState (step (Click PauseButton) calibrated) = PAUSED
   \<and> isManuallyPaused (step (Click PauseButton) calibrated)
   \<and> isLoudEnoughToResume (averageVolume (replicate 128 100))
        (silenceThresholdRef (step (Click PauseButton) calibrated))
   \<and> recordingState (step (AnimationFrame (replicate 128 100))
        (step (Click PauseButton) calibrated)) = RECORDING
   \<and> mediaRecorderRef (step (AnimationFrame (replicate 128 100))
        (step (Click PauseButton) calibrated)) = Some recording
   \<and> isManuallyPaused (step (AnimationFrame (replicate 128 100))
        (step (Click PauseButton) calibrated))"
  by (simp add: calibrated_eq eval_defs)

text \<open>
  Claim C7. In a reachable paused state whose manual-override flag is false, a frame
  whose sample is Loud resumes the recording within that same frame callback: the
  recorder and the recording state are back to recording, no time has passed and no
  timer is involved.
\<close>

theorem loud_sample_resumes_immediately:
  assumes "reachable s" and "recordingState s = PAUSED" and "\<not> isManuallyPaused s"
    and "isLoudEnoughToResume (averageVolume dataArray) (silenceThresholdRef s)"
  shows "recordingState (step (AnimationFrame dataArray) s) = RECORDING
    \<and> mediaRecorderRef (step (AnimationFrame dataArray) s) = Some recording
    \<and> now (step (AnimationFrame dataArray) s) = now s
    \<and> silenceTimerRef (step (AnimationFrame dataArray) s) = silenceTimerRef s"
  by (simp add: frame_resumes [OF assms(1,2,4)])

theorem loud_sample_resumes_immediately_witness:
  "reachable auto_paused \<and> recordingState auto_paused = PAUSED
   \<and> \<not> isManuallyPaused auto_paused
   \<and> silenceThresholdRef auto_paused = Finite 10
   \<and> averageVolume (replicate 128 26) = Finite 26
   \<and> isLoudEnoughToResume (averageVolume (replicate 128 26)) (silenceThresholdRef auto_paused)
   \<and> recordingState (step (AnimationFrame (replicate 128 26)) auto_paused) = RECORDING
   \<and> now (step (AnimationFrame (replicate 128 26)) auto_paused) = now auto_paused"
proof -
  have loud: "isLoudEnoughToResume (averageVolume (replicate 128 26))
      (silenceThresholdRef auto_paused)"
    by (simp add: auto_paused_eq averageVolume_replicate isLoudEnoughToResume_def
        js_greater_def SOUND_MULTIPLIER_def)
  have st: "recordingState auto_paused = PAUSED" "\<not> isManuallyPaused auto_paused"
    by (simp_all add: auto_paused_eq)
  show ?thesis
    using loud_sample_resumes_immediately [OF auto_paused_reachable st loud] loud st
      auto_paused_reachable
    by (simp add: auto_paused_eq averageVolume_replicate)
qed

text \<open>
  Claim C10. When the pause timer fires while recording, the session is paused and the
  manual-override flag is false afterwards, whatever it was before; the session then
  stays paused through any events that are neither a click nor a Loud sample, and the
  next Loud sample resumes the recording.
\<close>

theorem automatic_pause_clears_override:
  assumes "reachable s" and "recordingState s = RECORDING"
    and "silenceTimerRef s = Some t" and "live t" and "due t \<le> now s"
    and "\<forall>e \<in> set es. quiet_event (silenceThresholdRef s) e"
    and "isLoudEnoughToResume (averageVolume dataArray) (silenceThresholdRef s)"
  shows "recordingState (step SilenceTimeout s) = PAUSED
    \<and> mediaRecorderRef (step SilenceTimeout s) = Some paused
    \<and> \<not> isManuallyPaused (step SilenceTimeout s)
    \<and> recordingState (run es (step SilenceTimeout s)) = PAUSED
    \<and> recordingState (step (AnimationFrame dataArray) (run es (step SilenceTimeout s)))
        = RECORDING"
proof -
  let ?p = "step SilenceTimeout s"
  note eq = timeout_pauses [OF assms(1-5)]
  have r: "reachable ?p" using assms(1) by (rule reachable_step)
  have p: "recordingState ?p = PAUSED" and th: "silenceThresholdRef ?p = silenceThresholdRef s"
    by (simp_all add: eq)
  have q: "\<forall>e \<in> set es. quiet_event (silenceThresholdRef ?p) e"
    using assms(6) th by simp
  note stay = paused_run_quiet [OF r p q]
  have r': "reachable (run es ?p)" using r by (rule reachable_run)
  have loud: "isLoudEnoughToResume (averageVolume dataArray)
      (silenceThresholdRef (run es ?p))"
    using assms(7) stay th by simp
  have "recordingState (step (AnimationFrame dataArray) (run es ?p)) = RECORDING"
    using frame_resumes [OF r' _ loud] stay by simp
  then show ?thesis using stay by (simp add: eq)
qed

theorem automatic_pause_clears_override_witness:
  "reachable overridden \<and> recordingState overridden = RECORDING
   \<and> isManuallyPaused overridden
   \<and> silenceTimerRef overridden = Some \<lparr>due = 3400, live = True\<rparr>
   \<and> now overridden = 3400
   \<and> list_all (quiet_event (silenceThresholdRef overridden))
        [Elapse 100, AnimationFrame (replicate 128 22)]
   \<and> isLoudEnoughToResume (averageVolume (replicate 128 26)) (silenceThresholdRef overridden)
   \<and> recordingState (step SilenceTimeout overridden) = PAUSED
   \<and> \<not> isManuallyPaused (step SilenceTimeout overridden)
   \<and> recordingState (step (AnimationFrame (replicate 128 26))
        (run [Elapse 100, AnimationFrame (replicate 128 22)]
          (step SilenceTimeout overridden))) = RECORDING"
proof -
  have a: "recordingState overridden = RECORDING"
    "silenceTimerRef overridden = Some \<lparr>due = 3400, live = True\<rparr>"
    "live \<lparr>due = 3400, live = True\<rparr>"
    "due \<lparr>due = 3400, live = True\<rparr> \<le> now overridden"
    by (simp_all add: overridden_eq)
  have q: "\<forall>e \<in> set [Elapse 100, AnimationFrame (replicate 128 22)].
      quiet_event (silenceThresholdRef overridden) e"
    by (simp add: overridden_eq averageVolume_replicate isLoudEnoughToResume_def
        js_greater_def SOUND_MULTIPLIER_def)
  have loud: "isLoudEnoughToResume (averageVolume (replicate 128 26))
      (silenceThresholdRef overridden)"
    by (simp add: overridden_eq averageVolume_replicate isLoudEnoughToResume_def
        js_greater_def SOUND_MULTIPLIER_def)
  show ?thesis
    using automatic_pause_clears_override [OF overridden_reachable a q loud]
      overridden_reachable a q loud
    by (simp add: overridden_eq)
qed

end
